theory Spec2Isabelle
  imports Main
begin

section \<open>Python strings\<close>

text \<open>
  Strings are lists of characters; a character is a code point below 256. The helpers
  below are the \<^verbatim>\<open>str\<close> methods that \<^verbatim>\<open>main.py\<close> calls:
  \<^verbatim>\<open>s.lstrip('0')\<close>, \<^verbatim>\<open>s.replace('-', '')\<close>, \<^verbatim>\<open>sep.join(xs)\<close> and \<^verbatim>\<open>s.strip()\<close>.
\<close>

definition lstrip_zeros :: "string \<Rightarrow> string" where
  "lstrip_zeros s = dropWhile (\<lambda>c. c = CHR ''0'') s"

definition remove_hyphens :: "string \<Rightarrow> string" where
  "remove_hyphens s = filter (\<lambda>c. c \<noteq> CHR ''-'') s"

fun join :: "string \<Rightarrow> string list \<Rightarrow> string" where
  "join sep [] = []"
| "join sep [x] = x"
| "join sep (x # y # ys) = x @ sep @ join sep (y # ys)"

text \<open>The characters for which \<^verbatim>\<open>str.isspace\<close> holds, among code points below 256.\<close>

definition is_space :: "char \<Rightarrow> bool" where
  "is_space c = (let n = (of_char c :: nat) in
     (9 \<le> n \<and> n \<le> 13) \<or> (28 \<le> n \<and> n \<le> 32) \<or> n = 133 \<or> n = 160)"

definition strip :: "string \<Rightarrow> string" where
  "strip s = rev (dropWhile is_space (rev (dropWhile is_space s)))"

section \<open>The parsed detail page\<close>

text \<open>
  \<^verbatim>\<open>BeautifulSoup(responseNew.text, 'lxml')\<close> yields a tree of tags and strings. An
  attribute value is a string, or a list of strings for a multi-valued attribute such as
  \<^verbatim>\<open>class\<close>. The soup object itself is the root element of the tree. A tag object of
  the program is a position in the tree: the path of child indices from the root, kept
  together with the node found there. Comments and the other special kinds of string are
  not modelled: every string of a page is ordinary text.
\<close>

datatype attr = Single string | Multi "string list"

datatype node = Text string | Element string "(string \<times> attr) list" "node list"

type_synonym path = "nat list"

type_synonym tag = "path \<times> node"

datatype error =
    RequestException string
  | AttributeError
  | IndexError
  | ValueError
  | UnboundLocalError
  | KeyError

text \<open>Document order: a node, then its children from left to right, each with its path.\<close>

fun walk :: "path \<Rightarrow> node \<Rightarrow> tag list"
  and walks :: "path \<Rightarrow> nat \<Rightarrow> node list \<Rightarrow> tag list" where
  "walk p (Text s) = [(p, Text s)]"
| "walk p (Element n a cs) = (p, Element n a cs) # walks p 0 cs"
| "walks p i [] = []"
| "walks p i (c # cs) = walk (p @ [i]) c @ walks p (Suc i) cs"

fun subtree :: "node \<Rightarrow> path \<Rightarrow> node option" where
  "subtree n [] = Some n"
| "subtree (Text s) (i # p) = None"
| "subtree (Element n a cs) (i # p) = (if i < length cs then subtree (cs ! i) p else None)"

text \<open>\<^verbatim>\<open>tag.descendants\<close>: everything below the tag, the tag itself excluded.\<close>

definition descendants :: "tag \<Rightarrow> tag list" where
  "descendants t = tl (walk (fst t) (snd t))"

text \<open>\<^verbatim>\<open>tag.parent\<close>; the soup object has none.\<close>

definition parent :: "node \<Rightarrow> tag \<Rightarrow> tag option" where
  "parent soup t =
     (if fst t = [] then None
      else map_option (Pair (butlast (fst t))) (subtree soup (butlast (fst t))))"

text \<open>\<^verbatim>\<open>tag.next_elements\<close>: everything after the tag in document order, its own
  descendants first.\<close>

definition next_elements :: "node \<Rightarrow> tag \<Rightarrow> tag list" where
  "next_elements soup t = tl (dropWhile (\<lambda>u. fst u \<noteq> fst t) (walk [] soup))"

text \<open>\<^verbatim>\<open>tag.next_siblings\<close>: the later children of the tag's parent.\<close>

definition next_siblings :: "node \<Rightarrow> tag \<Rightarrow> tag list" where
  "next_siblings soup t =
     (if fst t = [] then []
      else (case subtree soup (butlast (fst t)) of
              Some (Element n a cs) \<Rightarrow>
                map (\<lambda>j. (butlast (fst t) @ [j], cs ! j)) [Suc (last (fst t)) ..< length cs]
            | _ \<Rightarrow> []))"

subsection \<open>Search filters\<close>

fun is_tag :: "string \<Rightarrow> node \<Rightarrow> bool" where
  "is_tag name (Text s) = False"
| "is_tag name (Element n a cs) = (n = name)"

text \<open>\<^verbatim>\<open>tag.string\<close>: the only child when it is a string, the only child's
  \<^verbatim>\<open>.string\<close> when it is a tag, and nothing when there is not exactly one child.\<close>

fun tag_string :: "node \<Rightarrow> string option" where
  "tag_string (Text s) = Some s"
| "tag_string (Element n a cs) = (case cs of [c] \<Rightarrow> tag_string c | _ \<Rightarrow> None)"

text \<open>The filter \<^verbatim>\<open>string=s\<close>: the tag's \<^verbatim>\<open>.string\<close> is exactly \<open>s\<close>.\<close>

definition has_string :: "string \<Rightarrow> node \<Rightarrow> bool" where
  "has_string s n = (tag_string n = Some s)"

fun attrs_of :: "node \<Rightarrow> (string \<times> attr) list" where
  "attrs_of (Text s) = []"
| "attrs_of (Element n a cs) = a"

text \<open>An attribute filter such as \<^verbatim>\<open>summary="Related Persons"\<close> or
  \<^verbatim>\<open>class_="FormData"\<close>: a string value must be equal; of a list value one item, or
  the items joined by spaces, must be equal; a missing attribute does not match.\<close>

definition has_attr :: "string \<Rightarrow> string \<Rightarrow> node \<Rightarrow> bool" where
  "has_attr k v n =
     (case map_of (attrs_of n) k of
        None \<Rightarrow> False
      | Some (Single x) \<Rightarrow> x = v
      | Some (Multi xs) \<Rightarrow> v \<in> set xs \<or> join '' '' xs = v)"

definition any_node :: "node \<Rightarrow> bool" where
  "any_node n = True"

definition matches :: "string \<Rightarrow> (node \<Rightarrow> bool) \<Rightarrow> tag \<Rightarrow> bool" where
  "matches name flt t = (is_tag name (snd t) \<and> flt (snd t))"

definition first :: "'a list \<Rightarrow> 'a option" where
  "first xs = (case xs of [] \<Rightarrow> None | x # _ \<Rightarrow> Some x)"

definition find_all :: "tag \<Rightarrow> string \<Rightarrow> (node \<Rightarrow> bool) \<Rightarrow> tag list" where
  "find_all t name flt = filter (matches name flt) (descendants t)"

definition find :: "tag \<Rightarrow> string \<Rightarrow> (node \<Rightarrow> bool) \<Rightarrow> tag option" where
  "find t name flt = first (find_all t name flt)"

definition find_next :: "node \<Rightarrow> tag \<Rightarrow> string \<Rightarrow> (node \<Rightarrow> bool) \<Rightarrow> tag option" where
  "find_next soup t name flt = first (filter (matches name flt) (next_elements soup t))"

definition find_next_sibling :: "node \<Rightarrow> tag \<Rightarrow> string \<Rightarrow> (node \<Rightarrow> bool) \<Rightarrow> tag option" where
  "find_next_sibling soup t name flt = first (filter (matches name flt) (next_siblings soup t))"

subsection \<open>Text of a tag\<close>

fun texts :: "node \<Rightarrow> string list" where
  "texts (Text s) = [s]"
| "texts (Element n a cs) = concat (map texts cs)"

text \<open>\<^verbatim>\<open>tag.text\<close>, that is \<^verbatim>\<open>tag.get_text()\<close>.\<close>

definition get_text :: "tag \<Rightarrow> string" where
  "get_text t = concat (texts (snd t))"

text \<open>\<^verbatim>\<open>tag.get_text(strip=True)\<close>: each string stripped, the empty ones dropped.\<close>

definition get_text_strip :: "tag \<Rightarrow> string" where
  "get_text_strip t = concat (filter (\<lambda>s. s \<noteq> []) (map strip (texts (snd t))))"

subsection \<open>Equality of tags\<close>

text \<open>
  \<^verbatim>\<open>list.index\<close> compares with \<^verbatim>\<open>==\<close>, and two tags are equal when they have
  the same name, the same attribute dictionary and equal children, wherever they stand
  in the tree.
\<close>

definition attrs_eq :: "(string \<times> attr) list \<Rightarrow> (string \<times> attr) list \<Rightarrow> bool" where
  "attrs_eq a b = list_all (\<lambda>k. map_of a k = map_of b k) (map fst a @ map fst b)"

fun node_eq :: "node \<Rightarrow> node \<Rightarrow> bool"
  and nodes_eq :: "node list \<Rightarrow> node list \<Rightarrow> bool" where
  "node_eq (Text s) (Text t) = (s = t)"
| "node_eq (Element n a cs) (Element m b ds) = (n = m \<and> attrs_eq a b \<and> nodes_eq cs ds)"
| "node_eq (Text s) (Element m b ds) = False"
| "node_eq (Element n a cs) (Text t) = False"
| "nodes_eq [] [] = True"
| "nodes_eq (c # cs) (d # ds) = (node_eq c d \<and> nodes_eq cs ds)"
| "nodes_eq [] (d # ds) = False"
| "nodes_eq (c # cs) [] = False"

text \<open>\<^verbatim>\<open>xs.index(x)\<close>: the first position holding an equal tag.\<close>

fun index_of :: "tag list \<Rightarrow> tag \<Rightarrow> nat option" where
  "index_of [] x = None"
| "index_of (y # ys) x =
     (if node_eq (snd y) (snd x) then Some 0 else map_option Suc (index_of ys x))"

section \<open>The detail-page extractor\<close>

definition root :: "node \<Rightarrow> tag" where
  "root soup = ([], soup)"

text \<open>Lines 149 to 153: what one row adds to \<^verbatim>\<open>related_persons\<close>.\<close>

definition row_name :: "tag \<Rightarrow> string list" where
  "row_name row =
     (let cols = find_all row ''td'' any_node
      in if cols \<noteq> [] then [join '' '' (map get_text_strip (rev cols))] else [])"

definition extract_related_persons :: "node \<Rightarrow> string list" where
  "extract_related_persons soup =
     concat (map (\<lambda>table. concat (map row_name (take 2 (drop 1 (find_all table ''tr'' any_node)))))
                 (find_all (root soup) ''table'' (has_attr ''summary'' ''Related Persons'')))"

text \<open>
  Lines 156 to 172. \<^verbatim>\<open>row\<close> is the parent of the parent of the header cell; reading
  an attribute of \<^verbatim>\<open>None\<close> raises \<^verbatim>\<open>AttributeError\<close>, \<^verbatim>\<open>index\<close> raises \<^verbatim>\<open>ValueError\<close> when
  nothing is equal, and \<^verbatim>\<open>tds[-1]\<close> raises \<^verbatim>\<open>IndexError\<close> on the empty list.
\<close>

definition extract_phone_number :: "node \<Rightarrow> error + string" where
  "extract_phone_number soup =
     (case find (root soup) ''th'' (has_string ''Phone Number of Issuer'') of
        None \<Rightarrow> Inr ''Not Found''
      | Some section \<Rightarrow>
          (case parent soup section of
             None \<Rightarrow> Inl AttributeError
           | Some par \<Rightarrow>
               (case parent soup par of
                  None \<Rightarrow> Inl AttributeError
                | Some row \<Rightarrow>
                    (let tds = find_all row ''td'' any_node in
                     case index_of (find_all row ''th'' any_node) section of
                       None \<Rightarrow> Inl ValueError
                     | Some index \<Rightarrow>
                         if length tds > index then Inr (get_text_strip (tds ! index))
                         else if tds = [] then Inl IndexError
                         else Inr (get_text_strip (last tds))))))"

text \<open>Lines 186 and 187: the sold amount is read, then both variables are returned; the
  offering amount is \<open>None\<close> here when no branch has assigned it.\<close>

definition read_sold_and_return :: "node \<Rightarrow> tag \<Rightarrow> string option \<Rightarrow> error + string \<times> string" where
  "read_sold_and_return soup sold_section total_offering_amount =
     (case find_next soup sold_section ''td'' any_node of
        None \<Rightarrow> Inl AttributeError
      | Some c \<Rightarrow>
          (case total_offering_amount of
             None \<Rightarrow> Inl UnboundLocalError
           | Some a \<Rightarrow> Inr (a, get_text_strip c)))"

text \<open>
  Lines 174 to 188. Line 180 repeats the search of line 176 and line 185 the
  \<^verbatim>\<open>find_next\<close> of line 179; each gives the tag found the first time, which is used
  again here. A method called on \<^verbatim>\<open>None\<close> raises \<^verbatim>\<open>AttributeError\<close>.
\<close>

definition extract_offering_amounts :: "node \<Rightarrow> error + string \<times> string" where
  "extract_offering_amounts soup =
     (case find (root soup) ''td'' (has_string ''Total Offering Amount'') of
        None \<Rightarrow> Inr (''Not Found'', ''Not Found'')
      | Some offering_section \<Rightarrow>
          (case find (root soup) ''td'' (has_string ''Total Amount Sold'') of
             None \<Rightarrow> Inr (''Not Found'', ''Not Found'')
           | Some sold_section \<Rightarrow>
               (case find_next soup offering_section ''td'' any_node of
                  None \<Rightarrow> Inl AttributeError
                | Some adjacent \<Rightarrow>
                    if get_text_strip adjacent = [] then
                      (case find_next_sibling soup offering_section ''td'' any_node of
                         None \<Rightarrow> Inl AttributeError
                       | Some offering_amount_td \<Rightarrow>
                           (case find_next soup offering_amount_td ''span''
                                   (has_attr ''class'' ''FormData'') of
                              None \<Rightarrow> read_sold_and_return soup sold_section None
                            | Some x_in_checkbox \<Rightarrow>
                                if strip (get_text x_in_checkbox) = ''X''
                                then read_sold_and_return soup sold_section (Some ''Indefinite'')
                                else read_sold_and_return soup sold_section None))
                    else read_sold_and_return soup sold_section
                           (Some (get_text_strip adjacent)))))"

section \<open>Search hits and result records\<close>

text \<open>
  A hit of the search response is a JSON object; \<^verbatim>\<open>item.get("_source", {})\<close> reads its
  source, whose keys may be absent. The value of \<^verbatim>\<open>adsh\<close>, when the key is present, is a
  string or JSON \<^verbatim>\<open>null\<close>, which Python reads as \<^verbatim>\<open>None\<close>. The other values that are
  present have the JSON type the code expects (a string, or a list of strings).
\<close>

datatype json_str = Null | Str string

record source =
  ciks :: "string list option"
  adsh :: "json_str option"
  display_names :: "string list option"
  file_date :: "string option"
  biz_locations :: "string list option"

type_synonym hit = "source option"

definition empty_source :: source where
  "empty_source = \<lparr>ciks = None, adsh = None, display_names = None, file_date = None,
     biz_locations = None\<rparr>"

definition get_source :: "hit \<Rightarrow> source" where
  "get_source item = (case item of None \<Rightarrow> empty_source | Some s \<Rightarrow> s)"

text \<open>The response: the outer \<^verbatim>\<open>hits\<close> key may be absent, and so may the inner one.\<close>

type_synonym response = "hit list option option"

definition hits_of :: "response \<Rightarrow> hit list" where
  "hits_of response = (case response of Some (Some hs) \<Rightarrow> hs | _ \<Rightarrow> [])"

text \<open>A result is a Python dictionary from column names to strings, in insertion order.\<close>

type_synonym pydict = "(string \<times> string) list"

definition dict_get :: "pydict \<Rightarrow> string \<Rightarrow> string option" where
  "dict_get d k = map_of d k"

definition dict_set :: "pydict \<Rightarrow> string \<Rightarrow> string \<Rightarrow> pydict" where
  "dict_set d k v =
     (if k \<in> set (map fst d) then map (\<lambda>kv. if fst kv = k then (k, v) else kv) d
      else d @ [(k, v)])"

definition dict_pop :: "pydict \<Rightarrow> string \<Rightarrow> pydict" where
  "dict_pop d k = filter (\<lambda>kv. fst kv \<noteq> k) d"

definition get_or :: "'a \<Rightarrow> 'a option \<Rightarrow> 'a" where
  "get_or d x = (case x of None \<Rightarrow> d | Some v \<Rightarrow> v)"

text \<open>The URL template of lines 63 and 132.\<close>

definition primary_doc_url :: "string \<Rightarrow> string \<Rightarrow> string" where
  "primary_doc_url cik adsh_cleaned =
     ''https://www.sec.gov/Archives/edgar/data/'' @ cik @ ''/'' @ adsh_cleaned
       @ ''/xslFormDX01/primary_doc.xml''"

text \<open>The anchor element of line 63; \<open>CHR 0x22\<close> is the double quote.\<close>

definition edgar_anchor :: "string \<Rightarrow> string" where
  "edgar_anchor url =
     ''<a href='' @ [CHR 0x22] @ url @ [CHR 0x22] @ '' target='' @ [CHR 0x22] @ ''_blank''
       @ [CHR 0x22] @ ''>Link</a>''"

text \<open>Lines 60 to 67. \<^verbatim>\<open>source.get('adsh')\<close> is false as a condition when the key is
  absent, when the value is \<^verbatim>\<open>None\<close> and when it is the empty string.\<close>

definition edgar_links :: "source \<Rightarrow> string" where
  "edgar_links src =
     (case ciks src of
        None \<Rightarrow> ''No links available''
      | Some cs \<Rightarrow>
          (case adsh src of
             None \<Rightarrow> ''No links available''
           | Some Null \<Rightarrow> ''No links available''
           | Some (Str a) \<Rightarrow>
               if a = [] then ''No links available''
               else join '', ''
                      (map (\<lambda>cik. edgar_anchor (primary_doc_url (lstrip_zeros cik) (remove_hyphens a)))
                           cs)))"

text \<open>Line 77, \<^verbatim>\<open>source.get("adsh", "N/A").replace('-', '')\<close>: the default stands in for
  an absent key only, and \<^verbatim>\<open>None\<close> has no \<^verbatim>\<open>replace\<close>.\<close>

definition adsh_column :: "source \<Rightarrow> error + string" where
  "adsh_column src =
     (case adsh src of
        None \<Rightarrow> Inr (remove_hyphens ''N/A'')
      | Some Null \<Rightarrow> Inl AttributeError
      | Some (Str a) \<Rightarrow> Inr (remove_hyphens a))"

text \<open>Lines 58 to 79: the dictionary built for one hit, or the exception raised while
  building it.\<close>

definition make_result :: "hit \<Rightarrow> error + pydict" where
  "make_result item =
     (let src = get_source item;
          cik_cleaned = map lstrip_zeros (get_or [] (ciks src))
      in case adsh_column src of
           Inl e \<Rightarrow> Inl e
         | Inr adsh_cleaned \<Rightarrow>
             Inr [(''CIK'', join '', '' cik_cleaned),
                  (''Company Name'', join '', '' (get_or [] (display_names src))),
                  (''File Date'', get_or ''Unknown'' (file_date src)),
                  (''Business Location(s)'', join '', '' (get_or [] (biz_locations src))),
                  (''ADSH'', adsh_cleaned),
                  (''Edgar'', edgar_links src)])"

text \<open>The loop of lines 57 to 80: it stops at the first hit that raises.\<close>

fun make_results :: "hit list \<Rightarrow> error + pydict list" where
  "make_results [] = Inr []"
| "make_results (item # rest) =
     (case make_result item of
        Inl e \<Rightarrow> Inl e
      | Inr result \<Rightarrow>
          (case make_results rest of
             Inl e \<Rightarrow> Inl e
           | Inr results \<Rightarrow> Inr (result # results)))"

section \<open>Enrichment\<close>

text \<open>
  The web: what \<^verbatim>\<open>requests.get(newLink, headers=HEADERS)\<close> followed by the parse gives for
  a URL, either the message of the \<^verbatim>\<open>RequestException\<close> raised or the parsed page. The
  status of the detail page is not inspected, and a URL always gives the same answer. Each
  request and each message shown by \<^verbatim>\<open>st.error\<close> is recorded as an event.
\<close>

type_synonym web = "string \<Rightarrow> string + node"

datatype event = SearchGet string string | PageGet string | StError string

definition new_link :: "pydict \<Rightarrow> error + string" where
  "new_link company =
     (case dict_get company ''CIK'' of
        None \<Rightarrow> Inl KeyError
      | Some cik \<Rightarrow>
          (case dict_get company ''ADSH'' of
             None \<Rightarrow> Inl KeyError
           | Some a \<Rightarrow> Inr (primary_doc_url (lstrip_zeros cik) (remove_hyphens a))))"

text \<open>Lines 138 to 141 on a parsed page.\<close>

definition add_fields :: "node \<Rightarrow> pydict \<Rightarrow> error + pydict" where
  "add_fields soup company =
     (let c1 = dict_set company ''Related Persons'' (join '', '' (extract_related_persons soup))
      in case extract_phone_number soup of
           Inl e \<Rightarrow> Inl e
         | Inr phone \<Rightarrow>
             (let c2 = dict_set c1 ''Phone Number'' phone
              in case extract_offering_amounts soup of
                   Inl e \<Rightarrow> Inl e
                 | Inr (offered, raised) \<Rightarrow>
                     Inr (dict_set c2 ''Total Offering Amount / Amount Raised''
                            (offered @ '' / '' @ raised))))"

text \<open>The body of the loop of \<^verbatim>\<open>add_and_edit\<close>, for one company.\<close>

definition enrich :: "web \<Rightarrow> pydict \<Rightarrow> event list \<times> (error + pydict)" where
  "enrich web company =
     (case new_link company of
        Inl e \<Rightarrow> ([], Inl e)
      | Inr newLink \<Rightarrow>
          (case web newLink of
             Inl msg \<Rightarrow> ([PageGet newLink], Inl (RequestException msg))
           | Inr soup \<Rightarrow> ([PageGet newLink], add_fields soup company)))"

fun add_and_edit :: "web \<Rightarrow> pydict list \<Rightarrow> event list \<times> (error + pydict list)" where
  "add_and_edit web [] = ([], Inr [])"
| "add_and_edit web (company # rest) =
     (case enrich web company of
        (log, Inl e) \<Rightarrow> (log, Inl e)
      | (log, Inr c) \<Rightarrow>
          (case add_and_edit web rest of
             (log', Inl e) \<Rightarrow> (log @ log', Inl e)
           | (log', Inr cs) \<Rightarrow> (log @ log', Inr (c # cs))))"

section \<open>The result normalizer\<close>

definition drop_ids :: "pydict \<Rightarrow> pydict" where
  "drop_ids result = dict_pop (dict_pop result ''CIK'') ''ADSH''"

text \<open>\<^verbatim>\<open>entry.get("Related Persons")\<close> as a condition: present and not empty.\<close>

definition has_related :: "pydict \<Rightarrow> bool" where
  "has_related entry =
     (case dict_get entry ''Related Persons'' of None \<Rightarrow> False | Some s \<Rightarrow> s \<noteq> [])"

definition clean_up :: "web \<Rightarrow> response \<Rightarrow> event list \<times> (error + pydict list)" where
  "clean_up web response =
     (case make_results (hits_of response) of
        Inl e \<Rightarrow> ([], Inl e)
      | Inr results \<Rightarrow>
          (case add_and_edit web results of
             (log, Inl e) \<Rightarrow> (log, Inl e)
           | (log, Inr enriched) \<Rightarrow> (log, Inr (filter has_related (map drop_ids enriched)))))"

section \<open>The search fetcher\<close>

text \<open>
  What \<^verbatim>\<open>requests.get(URL, headers=HEADERS, params=params)\<close> gives for a date range:
  the message of the \<^verbatim>\<open>RequestException\<close> it raises, or a response with its status, the
  message that \<^verbatim>\<open>raise_for_status\<close> would raise with, and its body, which
  \<^verbatim>\<open>response.json()\<close> decodes or rejects with a \<^verbatim>\<open>JSONDecodeError\<close> (a
  \<^verbatim>\<open>RequestException\<close> too).
\<close>

datatype json_body = Json response | NotJson string

record http_response =
  status_code :: nat
  http_error_msg :: string
  body :: json_body

datatype http_outcome = Raised string | Responded http_response

type_synonym search = "string \<Rightarrow> string \<Rightarrow> http_outcome"

text \<open>\<^verbatim>\<open>Response.raise_for_status\<close> raises for the statuses 400 to 599 only.\<close>

definition raise_for_status :: "http_response \<Rightarrow> error + unit" where
  "raise_for_status r =
     (if 400 \<le> status_code r \<and> status_code r < 600
      then Inl (RequestException (http_error_msg r)) else Inr ())"

text \<open>The body of the \<^verbatim>\<open>try\<close> block, lines 46 to 48.\<close>

definition try_fetch :: "search \<Rightarrow> web \<Rightarrow> string \<Rightarrow> string \<Rightarrow> event list \<times> (error + pydict list)" where
  "try_fetch srch web start_date end_date =
     (case srch start_date end_date of
        Raised msg \<Rightarrow> ([SearchGet start_date end_date], Inl (RequestException msg))
      | Responded r \<Rightarrow>
          (case raise_for_status r of
             Inl e \<Rightarrow> ([SearchGet start_date end_date], Inl e)
           | Inr u \<Rightarrow>
               (case body r of
                  NotJson msg \<Rightarrow> ([SearchGet start_date end_date], Inl (RequestException msg))
                | Json response \<Rightarrow>
                    (case clean_up web response of
                       (log, res) \<Rightarrow> (SearchGet start_date end_date # log, res)))))"

text \<open>The \<^verbatim>\<open>except requests.RequestException\<close> clause catches that exception only, from
  wherever in the block it was raised; \<open>None\<close> is Python's \<^verbatim>\<open>None\<close>.\<close>

definition fetch_sec_filings ::
  "search \<Rightarrow> web \<Rightarrow> string \<Rightarrow> string \<Rightarrow> event list \<times> (error + pydict list option)" where
  "fetch_sec_filings srch web start_date end_date =
     (case try_fetch srch web start_date end_date of
        (log, Inl (RequestException e)) \<Rightarrow> (log @ [StError (''Request failed: '' @ e)], Inr None)
      | (log, Inl e) \<Rightarrow> (log, Inl e)
      | (log, Inr results) \<Rightarrow> (log, Inr (Some results)))"

text \<open>Lines 115 to 122 of \<^verbatim>\<open>main\<close>: what the page shows once the button is pressed.\<close>

datatype shown = Table "pydict list" | Message string

definition show_filings :: "pydict list option \<Rightarrow> shown" where
  "show_filings filings =
     (case filings of
        None \<Rightarrow> Message ''No filings found or an error occurred.''
      | Some rs \<Rightarrow>
          if rs = [] then Message ''No filings found or an error occurred.'' else Table rs)"

section \<open>Example inputs\<close>

text \<open>Small pages, hits and servers on which the theorems below are instantiated.\<close>

definition cell :: "string \<Rightarrow> string \<Rightarrow> node" where
  "cell name s = Element name [] [Text s]"

text \<open>The tree the parser builds around the content of a page.\<close>

definition page :: "node list \<Rightarrow> node" where
  "page cs = Element ''[document]'' [] [Element ''html'' [] [Element ''body'' [] cs]]"

definition related_table :: node where
  "related_table = Element ''table'' [(''summary'', Single ''Related Persons'')]
     [Element ''tr'' [] [cell ''th'' ''Last Name'', cell ''th'' ''First Name''],
      Element ''tr'' [] [cell ''td'' ''Doe'', cell ''td'' '' John ''],
      Element ''tr'' [] [cell ''td'' ''Roe'', cell ''td'' ''Jane''],
      Element ''tr'' [] [cell ''td'' ''Poe'', cell ''td'' ''Edgar'']]"

definition related_page :: node where
  "related_page = page [related_table]"

definition related_row :: "nat \<Rightarrow> tag" where
  "related_row i = ([0, 0, 0, i], case related_table of Element n a cs \<Rightarrow> cs ! i | t \<Rightarrow> t)"

text \<open>The name of a row as the sentence of the specification words it for claim C4: the
  cell texts in reverse column order, concatenated. It is compared with the code's
  \<open>row_name\<close>.\<close>

definition concatenated_name :: "tag \<Rightarrow> string" where
  "concatenated_name row = concat (map get_text_strip (rev (find_all row ''td'' any_node)))"

definition phone_table :: node where
  "phone_table = Element ''table'' []
     [Element ''tr'' [] [cell ''th'' ''Name of Issuer'', cell ''th'' ''Phone Number of Issuer''],
      Element ''tr'' [] [cell ''td'' ''Acme Corp'', cell ''td'' '' 555-1234 '']]"

definition header_only_page :: node where
  "header_only_page =
     page [Element ''table'' [] [Element ''tr'' [] [cell ''th'' ''Phone Number of Issuer'']]]"

definition amounts_table :: node where
  "amounts_table = Element ''table'' []
     [Element ''tr'' [] [cell ''td'' ''Total Offering Amount'', cell ''td'' ''$1,000''],
      Element ''tr'' [] [cell ''td'' ''Total Amount Sold'', cell ''td'' ''$500'']]"

definition offering_only_page :: node where
  "offering_only_page =
     page [Element ''table'' []
        [Element ''tr'' [] [cell ''td'' ''Total Offering Amount'', cell ''td'' ''$1,000'']]]"

definition marker :: "string \<Rightarrow> node" where
  "marker s = Element ''span'' [(''class'', Multi [''FormData''])] [Text s]"

definition blank_cell :: node where
  "blank_cell = Element ''td'' [] [Text '' '']"

text \<open>A page whose offering amount is blank, with a marker of the given text in the cell
  after it.\<close>

definition checkbox_page :: "string \<Rightarrow> node" where
  "checkbox_page s =
     page [Element ''table'' []
        [Element ''tr'' []
           [cell ''td'' ''Total Offering Amount'', blank_cell, Element ''td'' [] [marker s]],
         Element ''tr'' [] [cell ''td'' ''Total Amount Sold'', cell ''td'' ''$500'']]]"

text \<open>The same page with the marker \<open>X\<close>, where no cell follows the sold-amount label.\<close>

definition no_sold_cell_page :: node where
  "no_sold_cell_page =
     page [Element ''table'' []
        [Element ''tr'' []
           [cell ''td'' ''Total Offering Amount'', blank_cell, Element ''td'' [] [marker ''X'']],
         Element ''tr'' [] [cell ''td'' ''Total Amount Sold'']]]"

definition full_page :: node where
  "full_page = page [related_table, phone_table, amounts_table]"

definition plain_page :: node where
  "plain_page = page [phone_table, amounts_table]"

definition example_source :: source where
  "example_source = \<lparr>ciks = Some [''0001234567''], adsh = Some (Str ''0001234567-24-000001''),
     display_names = Some [''Acme Corp''], file_date = Some ''2024-01-02'',
     biz_locations = Some [''New York, NY'']\<rparr>"

definition other_source :: source where
  "other_source = \<lparr>ciks = Some [''0000000042''], adsh = Some (Str ''0000000042-24-000007''),
     display_names = Some [''Beta LLC''], file_date = None, biz_locations = None\<rparr>"

definition lacking_hit :: hit where
  "lacking_hit = Some (example_source\<lparr>ciks := None\<rparr>)"

text \<open>The hit \<^verbatim>\<open>{"_source": {"ciks": ["0001234567"], "adsh": null, ...}}\<close>.\<close>

definition null_adsh_hit :: hit where
  "null_adsh_hit = Some (example_source\<lparr>adsh := Some Null\<rparr>)"

text \<open>A web serving the full page for the first source, a page without related persons
  for the second, and refusing every other request.\<close>

definition example_web :: web where
  "example_web url =
     (if url = ''https://www.sec.gov/Archives/edgar/data/1234567/000123456724000001/xslFormDX01/primary_doc.xml''
      then Inr full_page
      else if url = ''https://www.sec.gov/Archives/edgar/data/42/000000004224000007/xslFormDX01/primary_doc.xml''
      then Inr plain_page
      else Inl ''Connection refused'')"

definition constant_web :: web where
  "constant_web url = Inr full_page"

definition example_response :: response where
  "example_response = Some (Some [Some example_source, Some other_source, Some example_source])"

text \<open>The record of the first source in the final output.\<close>

definition example_record :: pydict where
  "example_record =
     [(''Company Name'', ''Acme Corp''), (''File Date'', ''2024-01-02''),
      (''Business Location(s)'', ''New York, NY''),
      (''Edgar'', edgar_anchor
         ''https://www.sec.gov/Archives/edgar/data/1234567/000123456724000001/xslFormDX01/primary_doc.xml''),
      (''Related Persons'', ''John Doe, Jane Roe''),
      (''Phone Number'', ''555-1234''),
      (''Total Offering Amount / Amount Raised'', ''$1,000 / $500'')]"

text \<open>Search servers: one that cannot be reached, one answering 404, and one answering
  300 with a JSON body that has no hits.\<close>

definition unreachable_search :: search where
  "unreachable_search start_date end_date = Raised ''Connection aborted''"

definition not_found_search :: search where
  "not_found_search start_date end_date =
     Responded \<lparr>status_code = 404, http_error_msg = ''404 Client Error: Not Found for url'',
       body = NotJson ''Expecting value''\<rparr>"

definition multiple_choices_search :: search where
  "multiple_choices_search start_date end_date =
     Responded \<lparr>status_code = 300, http_error_msg = [], body = Json (Some (Some []))\<rparr>"

section \<open>Auxiliary facts\<close>

subsection \<open>Searching the tree\<close>

lemma first_None_iff: "first xs = None \<longleftrightarrow> xs = []"
  by (cases xs) (simp_all add: first_def)

lemma first_SomeD: "first xs = Some x \<Longrightarrow> x \<in> set xs"
  by (cases xs) (simp_all add: first_def)

lemma find_None_iff:
  "find t name flt = None \<longleftrightarrow> (\<forall>u\<in>set (descendants t). \<not> matches name flt u)"
  by (simp add: find_def find_all_def first_None_iff filter_empty_conv)

lemma find_SomeD:
  "find t name flt = Some u \<Longrightarrow> u \<in> set (descendants t) \<and> matches name flt u"
  by (auto simp: find_def find_all_def dest!: first_SomeD)

lemma walk_paths:
  "\<forall>t\<in>set (walk p n). \<exists>r. fst t = p @ r \<and> subtree n r = Some (snd t)"
  "\<forall>t\<in>set (walks p i cs). \<exists>j r. fst t = p @ (i + j) # r \<and> j < length cs
      \<and> subtree (cs ! j) r = Some (snd t)"
proof (induction p n and p i cs rule: walk_walks.induct)
  case (1 p s)
  show ?case by simp
next
  case (2 p n a cs)
  show ?case
  proof
    fix t assume "t \<in> set (walk p (Element n a cs))"
    then consider "t = (p, Element n a cs)" | "t \<in> set (walks p 0 cs)" by auto
    then show "\<exists>r. fst t = p @ r \<and> subtree (Element n a cs) r = Some (snd t)"
    proof cases
      case 1
      then have "fst t = p @ [] \<and> subtree (Element n a cs) [] = Some (snd t)" by simp
      then show ?thesis by blast
    next
      case 2
      with "2.IH" obtain j r where "fst t = p @ j # r" "j < length cs"
        "subtree (cs ! j) r = Some (snd t)" by force
      then have "fst t = p @ (j # r) \<and> subtree (Element n a cs) (j # r) = Some (snd t)" by simp
      then show ?thesis by blast
    qed
  qed
next
  case (3 p i)
  show ?case by simp
next
  case (4 p i c cs)
  show ?case
  proof
    fix t assume "t \<in> set (walks p i (c # cs))"
    then consider "t \<in> set (walk (p @ [i]) c)" | "t \<in> set (walks p (Suc i) cs)" by auto
    then show "\<exists>j r. fst t = p @ (i + j) # r \<and> j < length (c # cs)
      \<and> subtree ((c # cs) ! j) r = Some (snd t)"
    proof cases
      case 1
      with "4.IH"(1) obtain r where "fst t = (p @ [i]) @ r" "subtree c r = Some (snd t)" by blast
      then have "fst t = p @ (i + 0) # r \<and> 0 < length (c # cs)
        \<and> subtree ((c # cs) ! 0) r = Some (snd t)" by simp
      then show ?thesis by blast
    next
      case 2
      with "4.IH"(2) obtain j r where "fst t = p @ (Suc i + j) # r" "j < length cs"
        "subtree (cs ! j) r = Some (snd t)" by blast
      then have "fst t = p @ (i + Suc j) # r \<and> Suc j < length (c # cs)
        \<and> subtree ((c # cs) ! Suc j) r = Some (snd t)" by simp
      then show ?thesis by blast
    qed
  qed
qed

lemma descendants_paths:
  assumes "t \<in> set (descendants (p, n))"
  shows "\<exists>j r. fst t = p @ j # r \<and> subtree n (j # r) = Some (snd t)"
proof (cases n)
  case (Text s)
  with assms show ?thesis by (simp add: descendants_def)
next
  case (Element m a cs)
  with assms have "t \<in> set (walks p 0 cs)" by (simp add: descendants_def)
  with walk_paths(2) [of p 0 cs] obtain j r where
    "fst t = p @ j # r" "j < length cs" "subtree (cs ! j) r = Some (snd t)" by force
  with Element show ?thesis by auto
qed

lemma subtree_in_walk:
  "\<forall>r m. subtree n r = Some m \<longrightarrow> (p @ r, m) \<in> set (walk p n)"
  "\<forall>j r m. j < length cs \<longrightarrow> subtree (cs ! j) r = Some m
      \<longrightarrow> (p @ (i + j) # r, m) \<in> set (walks p i cs)"
proof (induction p n and p i cs rule: walk_walks.induct)
  case (1 p s)
  show ?case
  proof (intro allI impI)
    fix r m assume "subtree (Text s) r = Some m"
    then show "(p @ r, m) \<in> set (walk p (Text s))" by (cases r) auto
  qed
next
  case (2 p n a cs)
  show ?case
  proof (intro allI impI)
    fix r m assume h: "subtree (Element n a cs) r = Some m"
    show "(p @ r, m) \<in> set (walk p (Element n a cs))"
    proof (cases r)
      case Nil
      with h show ?thesis by auto
    next
      case (Cons j r')
      with h have "j < length cs" "subtree (cs ! j) r' = Some m" by (simp_all split: if_splits)
      with "2.IH" have "(p @ (0 + j) # r', m) \<in> set (walks p 0 cs)" by blast
      with Cons show ?thesis by simp
    qed
  qed
next
  case (3 p i)
  show ?case by simp
next
  case (4 p i c cs)
  show ?case
  proof (intro allI impI)
    fix j r m assume h: "j < length (c # cs)" "subtree ((c # cs) ! j) r = Some m"
    show "(p @ (i + j) # r, m) \<in> set (walks p i (c # cs))"
    proof (cases j)
      case 0
      with h have "subtree c r = Some m" by simp
      with "4.IH"(1) have "((p @ [i]) @ r, m) \<in> set (walk (p @ [i]) c)" by blast
      with 0 show ?thesis by simp
    next
      case (Suc j')
      with h have "j' < length cs" "subtree (cs ! j') r = Some m" by simp_all
      with "4.IH"(2) have "(p @ (Suc i + j') # r, m) \<in> set (walks p (Suc i) cs)" by blast
      with Suc show ?thesis by simp
    qed
  qed
qed

lemma subtree_in_descendants:
  assumes "subtree n (j # r) = Some m"
  shows "(p @ j # r, m) \<in> set (descendants (p, n))"
proof (cases n)
  case (Text s)
  with assms show ?thesis by simp
next
  case (Element k a cs)
  with assms have "j < length cs" "subtree (cs ! j) r = Some m" by (simp_all split: if_splits)
  with subtree_in_walk(2) [of cs p 0] have "(p @ (0 + j) # r, m) \<in> set (walks p 0 cs)" by blast
  with Element show ?thesis by (simp add: descendants_def)
qed

lemma subtree_append:
  "subtree n (a @ b) = Some m \<Longrightarrow> \<exists>k. subtree n a = Some k \<and> subtree k b = Some m"
proof (induction a arbitrary: n)
  case Nil
  then show ?case by simp
next
  case (Cons i a)
  then show ?case by (cases n) (auto split: if_splits)
qed

lemma attrs_eq_refl: "attrs_eq a a"
  by (simp add: attrs_eq_def list_all_iff)

lemma node_eq_refl: "node_eq n n"
proof (induction n)
  case (Text s)
  show ?case by simp
next
  case (Element k a cs)
  then have "nodes_eq cs cs" by (induction cs) simp_all
  then show ?case by (simp add: attrs_eq_refl)
qed

lemma index_of_found: "x \<in> set ys \<Longrightarrow> \<exists>i. index_of ys x = Some i \<and> i < length ys"
  by (induction ys) (auto simp: node_eq_refl)

lemma found_in_grandparent:
  assumes f: "find (root soup) name flt = Some section"
    and p1: "parent soup section = Some par"
    and p2: "parent soup par = Some row"
  shows "section \<in> set (find_all row name any_node)"
proof -
  from find_SomeD [OF f] have d: "section \<in> set (descendants ([], soup))"
    and m: "matches name flt section" by (simp_all add: root_def)
  from descendants_paths [OF d] have s: "subtree soup (fst section) = Some (snd section)"
    by auto
  from p1 have ne1: "fst section \<noteq> []" and par: "fst par = butlast (fst section)"
    by (auto simp: parent_def split: if_splits)
  from p2 par have ne2: "butlast (fst section) \<noteq> []"
    and row: "fst row = butlast (butlast (fst section))"
    and g: "subtree soup (butlast (butlast (fst section))) = Some (snd row)"
    by (auto simp: parent_def split: if_splits)
  define q where "q = butlast (butlast (fst section))"
  define i where "i = last (butlast (fst section))"
  define j where "j = last (fst section)"
  have "fst section = butlast (fst section) @ [j]"
    using ne1 by (simp add: j_def)
  moreover have "butlast (fst section) = q @ [i]"
    using ne2 by (simp add: q_def i_def)
  ultimately have split: "fst section = q @ [i, j]" by simp
  with s have "subtree soup (q @ [i, j]) = Some (snd section)" by simp
  from subtree_append [OF this] g have "subtree (snd row) [i, j] = Some (snd section)"
    by (auto simp: q_def)
  from subtree_in_descendants [OF this, of q]
  have "(q @ [i, j], snd section) \<in> set (descendants (q, snd row))" .
  with split row have "section \<in> set (descendants row)"
    by (metis q_def prod.collapse)
  moreover from m have "matches name any_node section"
    by (simp add: matches_def any_node_def)
  ultimately show ?thesis by (simp add: find_all_def)
qed

lemma phone_header_found:
  assumes f: "find (root soup) ''th'' (has_string ''Phone Number of Issuer'') = Some section"
    and p1: "parent soup section = Some par"
    and p2: "parent soup par = Some row"
  shows "(find_all row ''td'' any_node = [] \<longrightarrow> extract_phone_number soup = Inl IndexError)
       \<and> (find_all row ''td'' any_node \<noteq> [] \<longrightarrow> (\<exists>t\<in>set (find_all row ''td'' any_node).
             extract_phone_number soup = Inr (get_text_strip t)))"
proof -
  from index_of_found [OF found_in_grandparent [OF f p1 p2]]
  obtain i where i: "index_of (find_all row ''th'' any_node) section = Some i" by blast
  show ?thesis
    using f p1 p2 i by (auto simp: extract_phone_number_def Let_def)
qed

subsection \<open>Records\<close>

lemma make_result_Inr:
  assumes "make_result item = Inr result"
  shows "\<exists>a. result =
      [(''CIK'', join '', '' (map lstrip_zeros (get_or [] (ciks (get_source item))))),
       (''Company Name'', join '', '' (get_or [] (display_names (get_source item)))),
       (''File Date'', get_or ''Unknown'' (file_date (get_source item))),
       (''Business Location(s)'', join '', '' (get_or [] (biz_locations (get_source item)))),
       (''ADSH'', a),
       (''Edgar'', edgar_links (get_source item))]"
  using assms by (auto simp: make_result_def Let_def split: sum.splits)

lemma add_fields_result:
  assumes "make_result item = Inr result" and "add_fields soup result = Inr r"
  shows "\<exists>phone offered raised.
      extract_phone_number soup = Inr phone
    \<and> extract_offering_amounts soup = Inr (offered, raised)
    \<and> r = result @
          [(''Related Persons'', join '', '' (extract_related_persons soup)),
           (''Phone Number'', phone),
           (''Total Offering Amount / Amount Raised'', offered @ '' / '' @ raised)]"
proof -
  from make_result_Inr [OF assms(1)] obtain a where
    "result =
      [(''CIK'', join '', '' (map lstrip_zeros (get_or [] (ciks (get_source item))))),
       (''Company Name'', join '', '' (get_or [] (display_names (get_source item)))),
       (''File Date'', get_or ''Unknown'' (file_date (get_source item))),
       (''Business Location(s)'', join '', '' (get_or [] (biz_locations (get_source item)))),
       (''ADSH'', a),
       (''Edgar'', edgar_links (get_source item))]" ..
  with assms(2) show ?thesis
    by (auto simp: add_fields_def dict_set_def Let_def split: sum.splits)
qed

lemma new_link_result:
  assumes "make_result item = Inr result"
  shows "\<exists>url. new_link result = Inr url"
proof -
  from make_result_Inr [OF assms] obtain a where
    "result =
      [(''CIK'', join '', '' (map lstrip_zeros (get_or [] (ciks (get_source item))))),
       (''Company Name'', join '', '' (get_or [] (display_names (get_source item)))),
       (''File Date'', get_or ''Unknown'' (file_date (get_source item))),
       (''Business Location(s)'', join '', '' (get_or [] (biz_locations (get_source item)))),
       (''ADSH'', a),
       (''Edgar'', edgar_links (get_source item))]" ..
  then show ?thesis by (simp add: new_link_def dict_get_def)
qed

lemma enrich_result:
  assumes m: "make_result item = Inr result" and e: "snd (enrich web result) = Inr r"
  shows "\<exists>url soup phone offered raised.
      new_link result = Inr url
    \<and> web url = Inr soup
    \<and> extract_phone_number soup = Inr phone
    \<and> extract_offering_amounts soup = Inr (offered, raised)
    \<and> r = result @
          [(''Related Persons'', join '', '' (extract_related_persons soup)),
           (''Phone Number'', phone),
           (''Total Offering Amount / Amount Raised'', offered @ '' / '' @ raised)]"
proof -
  from new_link_result [OF m] obtain url where u: "new_link result = Inr url" ..
  show ?thesis
  proof (cases "web url")
    case (Inl msg)
    with e u show ?thesis by (simp add: enrich_def)
  next
    case (Inr soup)
    with e u have "add_fields soup result = Inr r"
      by (simp add: enrich_def)
    from add_fields_result [OF m this] Inr u show ?thesis by blast
  qed
qed

lemma drop_ids_enriched:
  assumes "make_result item = Inr result"
  shows "drop_ids (result @ [(''Related Persons'', a), (''Phone Number'', b),
       (''Total Offering Amount / Amount Raised'', c)])
   = [(''Company Name'', join '', '' (get_or [] (display_names (get_source item)))),
      (''File Date'', get_or ''Unknown'' (file_date (get_source item))),
      (''Business Location(s)'', join '', '' (get_or [] (biz_locations (get_source item)))),
      (''Edgar'', edgar_links (get_source item)),
      (''Related Persons'', a), (''Phone Number'', b),
      (''Total Offering Amount / Amount Raised'', c)]"
proof -
  from make_result_Inr [OF assms] obtain x where
    "result =
      [(''CIK'', join '', '' (map lstrip_zeros (get_or [] (ciks (get_source item))))),
       (''Company Name'', join '', '' (get_or [] (display_names (get_source item)))),
       (''File Date'', get_or ''Unknown'' (file_date (get_source item))),
       (''Business Location(s)'', join '', '' (get_or [] (biz_locations (get_source item)))),
       (''ADSH'', x),
       (''Edgar'', edgar_links (get_source item))]" ..
  then show ?thesis by (simp add: drop_ids_def dict_pop_def)
qed

lemma make_results_all2D:
  "make_results items = Inr results
   \<Longrightarrow> list_all2 (\<lambda>item result. make_result item = Inr result) items results"
proof (induction items arbitrary: results)
  case Nil
  then show ?case by simp
next
  case (Cons item items)
  then show ?case
    by (auto split: sum.splits)
qed

lemma make_results_all2I:
  "list_all2 (\<lambda>item result. make_result item = Inr result) items results
   \<Longrightarrow> make_results items = Inr results"
proof (induction items arbitrary: results)
  case Nil
  then show ?case by simp
next
  case (Cons item items)
  then show ?case
    by (auto simp: list_all2_Cons1 split: sum.splits)
qed

lemma make_results_all2:
  "(make_results items = Inr results)
     = list_all2 (\<lambda>item result. make_result item = Inr result) items results"
  using make_results_all2D make_results_all2I by blast

lemma add_and_edit_all2D:
  "snd (add_and_edit web cs) = Inr rs \<Longrightarrow> list_all2 (\<lambda>c r. snd (enrich web c) = Inr r) cs rs"
proof (induction cs arbitrary: rs)
  case Nil
  then show ?case by simp
next
  case (Cons c cs)
  then show ?case
    by (auto split: prod.splits sum.splits)
qed

lemma add_and_edit_all2I:
  "list_all2 (\<lambda>c r. snd (enrich web c) = Inr r) cs rs \<Longrightarrow> snd (add_and_edit web cs) = Inr rs"
proof (induction cs arbitrary: rs)
  case Nil
  then show ?case by simp
next
  case (Cons c cs)
  then show ?case
    by (auto simp: list_all2_Cons1 split: prod.splits sum.splits)
qed

lemma add_and_edit_all2:
  "(snd (add_and_edit web cs) = Inr rs) = list_all2 (\<lambda>c r. snd (enrich web c) = Inr r) cs rs"
  using add_and_edit_all2D add_and_edit_all2I by blast

lemma clean_up_Inr:
  "(snd (clean_up web response) = Inr final) =
     (\<exists>results enriched. make_results (hits_of response) = Inr results
        \<and> snd (add_and_edit web results) = Inr enriched
        \<and> final = filter has_related (map drop_ids enriched))"
  by (auto simp: clean_up_def split: prod.splits sum.splits)

lemma list_all2_setD2:
  "list_all2 P xs ys \<Longrightarrow> y \<in> set ys \<Longrightarrow> \<exists>x\<in>set xs. P x y"
  by (induction rule: list_all2_induct) auto

text \<open>Building the results and then enriching them, hit by hit.\<close>

lemma built_and_enriched:
  "(\<exists>results. make_results items = Inr results \<and> snd (add_and_edit web results) = Inr enriched)
     = list_all2 (\<lambda>item r. \<exists>result. make_result item = Inr result
                               \<and> snd (enrich web result) = Inr r) items enriched"
proof -
  have "(\<lambda>item r. \<exists>result. make_result item = Inr result \<and> snd (enrich web result) = Inr r)
      = (\<lambda>item result. make_result item = Inr result) OO (\<lambda>c r. snd (enrich web c) = Inr r)"
    by (auto simp: fun_eq_iff)
  then show ?thesis
    by (auto simp: make_results_all2 add_and_edit_all2 list.rel_compp)
qed

lemma enriched_edgar:
  assumes "make_result item = Inr result" and "snd (enrich web result) = Inr r"
  shows "dict_get (drop_ids r) ''Edgar'' = Some (edgar_links (get_source item))"
proof -
  from enrich_result [OF assms] obtain a b c where
    "r = result @ [(''Related Persons'', a), (''Phone Number'', b),
       (''Total Offering Amount / Amount Raised'', c)]" by blast
  then show ?thesis by (simp add: drop_ids_enriched [OF assms(1)] dict_get_def)
qed

section \<open>The claims\<close>

subsection \<open>C1: the link of the example hit\<close>

text \<open>
  Claim C1, as amended. For every hit whose \<^verbatim>\<open>ciks\<close> list is \<^verbatim>\<open>["0001234567"]\<close> and
  whose \<^verbatim>\<open>adsh\<close> is \<^verbatim>\<open>"0001234567-24-000001"\<close>, the URL that the normalizer requests
  for the detail page is exactly
  \<^verbatim>\<open>https://www.sec.gov/Archives/edgar/data/1234567/000123456724000001/xslFormDX01/primary_doc.xml\<close>
  (leading zeros stripped from the identifier, hyphens stripped from the accession number),
  and the link field \<^verbatim>\<open>Edgar\<close> of its record, before and after enrichment, is the anchor
  element \<^verbatim>\<open><a href="..." target="_blank">Link</a>\<close> whose \<^verbatim>\<open>href\<close> is that URL.
\<close>

theorem detail_link_of_example_hit:
  assumes "ciks (get_source item) = Some [''0001234567'']"
    and "adsh (get_source item) = Some (Str ''0001234567-24-000001'')"
  shows "\<exists>result. make_result item = Inr result
       \<and> new_link result =
           Inr ''https://www.sec.gov/Archives/edgar/data/1234567/000123456724000001/xslFormDX01/primary_doc.xml''
       \<and> dict_get result ''Edgar'' =
           Some (''<a href='' @ [CHR 0x22]
             @ ''https://www.sec.gov/Archives/edgar/data/1234567/000123456724000001/xslFormDX01/primary_doc.xml''
             @ [CHR 0x22] @ '' target='' @ [CHR 0x22] @ ''_blank'' @ [CHR 0x22] @ ''>Link</a>'')
       \<and> (\<forall>web r. snd (enrich web result) = Inr r \<longrightarrow>
             dict_get (drop_ids r) ''Edgar'' =
               Some (''<a href='' @ [CHR 0x22]
                 @ ''https://www.sec.gov/Archives/edgar/data/1234567/000123456724000001/xslFormDX01/primary_doc.xml''
                 @ [CHR 0x22] @ '' target='' @ [CHR 0x22] @ ''_blank'' @ [CHR 0x22] @ ''>Link</a>''))"
proof -
  have l: "edgar_links (get_source item) = ''<a href'' @ ''='' @ [CHR 0x22]
             @ ''https://www.sec.gov/Archives/edgar/data/1234567/000123456724000001/xslFormDX01/primary_doc.xml''
             @ [CHR 0x22] @ '' target='' @ [CHR 0x22] @ ''_blank'' @ [CHR 0x22] @ ''>Link</a>''"
    using assms
    by (simp add: edgar_links_def edgar_anchor_def primary_doc_url_def lstrip_zeros_def
        remove_hyphens_def)
  from assms obtain result where m: "make_result item = Inr result"
    by (simp add: make_result_def adsh_column_def Let_def)
  have n: "new_link result =
           Inr ''https://www.sec.gov/Archives/edgar/data/1234567/000123456724000001/xslFormDX01/primary_doc.xml''"
    using assms m
    by (auto simp: new_link_def make_result_def adsh_column_def dict_get_def Let_def get_or_def
        primary_doc_url_def lstrip_zeros_def remove_hyphens_def)
  have e: "dict_get result ''Edgar'' = Some (edgar_links (get_source item))"
    using m by (auto simp: make_result_def dict_get_def Let_def split: sum.splits)
  from l m n e enriched_edgar [OF m] show ?thesis by simp
qed

theorem detail_link_of_example_hit_witness:
  "\<exists>result. make_result (Some example_source) = Inr result
   \<and> new_link result =
       Inr ''https://www.sec.gov/Archives/edgar/data/1234567/000123456724000001/xslFormDX01/primary_doc.xml''
   \<and> dict_get result ''Edgar'' =
       Some (''<a href='' @ [CHR 0x22]
         @ ''https://www.sec.gov/Archives/edgar/data/1234567/000123456724000001/xslFormDX01/primary_doc.xml''
         @ [CHR 0x22] @ '' target='' @ [CHR 0x22] @ ''_blank'' @ [CHR 0x22] @ ''>Link</a>'')
   \<and> (case snd (enrich constant_web result) of
         Inl e \<Rightarrow> None
       | Inr r \<Rightarrow> dict_get (drop_ids r) ''Edgar'') =
       Some (''<a href='' @ [CHR 0x22]
         @ ''https://www.sec.gov/Archives/edgar/data/1234567/000123456724000001/xslFormDX01/primary_doc.xml''
         @ [CHR 0x22] @ '' target='' @ [CHR 0x22] @ ''_blank'' @ [CHR 0x22] @ ''>Link</a>'')"
proof -
  have c: "ciks (get_source (Some example_source)) = Some [''0001234567'']"
    by (simp add: get_source_def example_source_def)
  have a: "adsh (get_source (Some example_source)) = Some (Str ''0001234567-24-000001'')"
    by (simp add: get_source_def example_source_def)
  have i: "\<not> isl (snd (enrich constant_web (projr (make_result (Some example_source)))))"
    by code_simp
  from detail_link_of_example_hit [OF c a] obtain result where
    m: "make_result (Some example_source) = Inr result"
    and rest: "new_link result =
       Inr ''https://www.sec.gov/Archives/edgar/data/1234567/000123456724000001/xslFormDX01/primary_doc.xml''"
      "dict_get result ''Edgar'' =
       Some (''<a href='' @ [CHR 0x22]
         @ ''https://www.sec.gov/Archives/edgar/data/1234567/000123456724000001/xslFormDX01/primary_doc.xml''
         @ [CHR 0x22] @ '' target='' @ [CHR 0x22] @ ''_blank'' @ [CHR 0x22] @ ''>Link</a>'')"
      "\<forall>web r. snd (enrich web result) = Inr r \<longrightarrow>
         dict_get (drop_ids r) ''Edgar'' =
           Some (''<a href='' @ [CHR 0x22]
             @ ''https://www.sec.gov/Archives/edgar/data/1234567/000123456724000001/xslFormDX01/primary_doc.xml''
             @ [CHR 0x22] @ '' target='' @ [CHR 0x22] @ ''_blank'' @ [CHR 0x22] @ ''>Link</a>'')"
    by blast
  from i m obtain r where r: "snd (enrich constant_web result) = Inr r"
    by (cases "snd (enrich constant_web result)") simp_all
  from rest(3) r have "(case snd (enrich constant_web result) of
         Inl e \<Rightarrow> None
       | Inr r \<Rightarrow> dict_get (drop_ids r) ''Edgar'') =
       Some (''<a href='' @ [CHR 0x22]
         @ ''https://www.sec.gov/Archives/edgar/data/1234567/000123456724000001/xslFormDX01/primary_doc.xml''
         @ [CHR 0x22] @ '' target='' @ [CHR 0x22] @ ''_blank'' @ [CHR 0x22] @ ''>Link</a>'')"
    by simp
  with m rest(1,2) show ?thesis by blast
qed

text \<open>The link field of the record is not the bare URL of the claim as first stated.\<close>

theorem detail_link_field_counterexample:
  "dict_get (projr (make_result (Some example_source))) ''Edgar'' \<noteq>
     Some ''https://www.sec.gov/Archives/edgar/data/1234567/000123456724000001/xslFormDX01/primary_doc.xml''
   \<and> \<not> isl (make_result (Some example_source))
   \<and> dict_get (projr (make_result (Some example_source))) ''Edgar'' =
     Some (''<a href='' @ [CHR 0x22]
       @ ''https://www.sec.gov/Archives/edgar/data/1234567/000123456724000001/xslFormDX01/primary_doc.xml''
       @ [CHR 0x22] @ '' target='' @ [CHR 0x22] @ ''_blank'' @ [CHR 0x22] @ ''>Link</a>'')"
  by code_simp

subsection \<open>C2: the filter law\<close>

text \<open>
  Claim C2. \<^verbatim>\<open>clean_up\<close> returns a list exactly when the result of every hit is built
  and its enrichment succeeds, and then the final list is the enriched records (one per hit, in the order
  of the hits, identifier fields dropped) filtered by a non-empty \<^verbatim>\<open>Related Persons\<close>
  field; filtering the final list again leaves it unchanged.
\<close>

theorem filter_law:
  "(snd (clean_up web response) = Inr final) =
     (\<exists>enriched.
        list_all2 (\<lambda>item r. \<exists>result. make_result item = Inr result
                                \<and> snd (enrich web result) = Inr r)
          (hits_of response) enriched
      \<and> final = filter has_related (map drop_ids enriched)
      \<and> filter has_related final = final)"
proof -
  have "(snd (clean_up web response) = Inr final) =
     (\<exists>enriched.
        (\<exists>results. make_results (hits_of response) = Inr results
            \<and> snd (add_and_edit web results) = Inr enriched)
      \<and> final = filter has_related (map drop_ids enriched))"
    by (auto simp: clean_up_Inr)
  also have "\<dots> =
     (\<exists>enriched.
        list_all2 (\<lambda>item r. \<exists>result. make_result item = Inr result
                                \<and> snd (enrich web result) = Inr r)
          (hits_of response) enriched
      \<and> final = filter has_related (map drop_ids enriched))"
    by (simp only: built_and_enriched)
  also have "\<dots> =
     (\<exists>enriched.
        list_all2 (\<lambda>item r. \<exists>result. make_result item = Inr result
                                \<and> snd (enrich web result) = Inr r)
          (hits_of response) enriched
      \<and> final = filter has_related (map drop_ids enriched)
      \<and> filter has_related final = final)"
    by auto
  finally show ?thesis .
qed

text \<open>Three hits, of which the second has no related persons.\<close>

theorem filter_law_witness:
  "snd (clean_up example_web example_response) = Inr [example_record, example_record]
   \<and> (\<exists>enriched.
        list_all2 (\<lambda>item r. \<exists>result. make_result item = Inr result
                                \<and> snd (enrich example_web result) = Inr r)
          (hits_of example_response) enriched
      \<and> [example_record, example_record] = filter has_related (map drop_ids enriched)
      \<and> filter has_related [example_record, example_record]
          = [example_record, example_record])"
proof -
  have "snd (clean_up example_web example_response) = Inr [example_record, example_record]"
    by code_simp
  with filter_law [of example_web example_response "[example_record, example_record]"]
  show ?thesis by simp
qed

subsection \<open>C3: the fields of a final record\<close>

text \<open>
  Claim C3, as amended. Every record of the final output has exactly seven fields, in this
  order: \<^verbatim>\<open>Company Name\<close>, \<^verbatim>\<open>File Date\<close>, \<^verbatim>\<open>Business Location(s)\<close>, \<^verbatim>\<open>Edgar\<close>,
  \<^verbatim>\<open>Related Persons\<close> (the names joined by comma and space), \<^verbatim>\<open>Phone Number\<close>, and
  one field \<^verbatim>\<open>Total Offering Amount / Amount Raised\<close> that holds the offering amount and
  the sold amount joined by \<^verbatim>\<open>" / "\<close>; the raw \<^verbatim>\<open>CIK\<close> and \<^verbatim>\<open>ADSH\<close> fields are removed.
\<close>

theorem final_record_fields:
  assumes "snd (clean_up web response) = Inr final"
  shows "\<forall>r\<in>set final. \<exists>item result url soup phone offered raised.
      item \<in> set (hits_of response)
    \<and> make_result item = Inr result
    \<and> new_link result = Inr url
    \<and> web url = Inr soup
    \<and> extract_phone_number soup = Inr phone
    \<and> extract_offering_amounts soup = Inr (offered, raised)
    \<and> r = [(''Company Name'', join '', '' (get_or [] (display_names (get_source item)))),
            (''File Date'', get_or ''Unknown'' (file_date (get_source item))),
            (''Business Location(s)'', join '', '' (get_or [] (biz_locations (get_source item)))),
            (''Edgar'', edgar_links (get_source item)),
            (''Related Persons'', join '', '' (extract_related_persons soup)),
            (''Phone Number'', phone),
            (''Total Offering Amount / Amount Raised'', offered @ '' / '' @ raised)]"
proof
  fix r assume r: "r \<in> set final"
  from assms obtain results enriched where
    b: "make_results (hits_of response) = Inr results"
    and e: "snd (add_and_edit web results) = Inr enriched"
    and f: "final = filter has_related (map drop_ids enriched)"
    by (auto simp: clean_up_Inr)
  from r f obtain c where c: "c \<in> set enriched" and rc: "r = drop_ids c" by auto
  from b e have "list_all2 (\<lambda>item r. \<exists>result. make_result item = Inr result
                               \<and> snd (enrich web result) = Inr r) (hits_of response) enriched"
    using built_and_enriched [of "hits_of response" web enriched] by blast
  from list_all2_setD2 [OF this c]
  obtain item result where i: "item \<in> set (hits_of response)"
    and m: "make_result item = Inr result"
    and en: "snd (enrich web result) = Inr c" by auto
  from enrich_result [OF m en] obtain url soup phone offered raised where
    "new_link result = Inr url" "web url = Inr soup"
    "extract_phone_number soup = Inr phone"
    "extract_offering_amounts soup = Inr (offered, raised)"
    "c = result @
          [(''Related Persons'', join '', '' (extract_related_persons soup)),
           (''Phone Number'', phone),
           (''Total Offering Amount / Amount Raised'', offered @ '' / '' @ raised)]"
    by blast
  with i m rc show "\<exists>item result url soup phone offered raised.
      item \<in> set (hits_of response)
    \<and> make_result item = Inr result
    \<and> new_link result = Inr url
    \<and> web url = Inr soup
    \<and> extract_phone_number soup = Inr phone
    \<and> extract_offering_amounts soup = Inr (offered, raised)
    \<and> r = [(''Company Name'', join '', '' (get_or [] (display_names (get_source item)))),
            (''File Date'', get_or ''Unknown'' (file_date (get_source item))),
            (''Business Location(s)'', join '', '' (get_or [] (biz_locations (get_source item)))),
            (''Edgar'', edgar_links (get_source item)),
            (''Related Persons'', join '', '' (extract_related_persons soup)),
            (''Phone Number'', phone),
            (''Total Offering Amount / Amount Raised'', offered @ '' / '' @ raised)]"
    by (simp only: drop_ids_enriched [OF m]) blast
qed

theorem final_record_fields_witness:
  "snd (clean_up constant_web (Some (Some [Some example_source]))) = Inr [example_record]
   \<and> (\<exists>item result url soup phone offered raised.
      item \<in> set (hits_of (Some (Some [Some example_source])))
    \<and> make_result item = Inr result
    \<and> new_link result = Inr url
    \<and> constant_web url = Inr soup
    \<and> extract_phone_number soup = Inr phone
    \<and> extract_offering_amounts soup = Inr (offered, raised)
    \<and> example_record =
           [(''Company Name'', join '', '' (get_or [] (display_names (get_source item)))),
            (''File Date'', get_or ''Unknown'' (file_date (get_source item))),
            (''Business Location(s)'', join '', '' (get_or [] (biz_locations (get_source item)))),
            (''Edgar'', edgar_links (get_source item)),
            (''Related Persons'', join '', '' (extract_related_persons soup)),
            (''Phone Number'', phone),
            (''Total Offering Amount / Amount Raised'', offered @ '' / '' @ raised)])"
proof -
  have h: "snd (clean_up constant_web (Some (Some [Some example_source]))) = Inr [example_record]"
    by code_simp
  from final_record_fields [OF h] h show ?thesis by simp
qed

text \<open>On the example the offering amount is \<^verbatim>\<open>$1,000\<close> and the sold amount \<^verbatim>\<open>$500\<close>: the
  final record has seven fields, none of which holds either amount alone.\<close>

theorem separate_amount_fields_counterexample:
  "extract_offering_amounts full_page = Inr (''$1,000'', ''$500'')
   \<and> snd (clean_up constant_web (Some (Some [Some example_source]))) = Inr [example_record]
   \<and> map fst example_record =
       [''Company Name'', ''File Date'', ''Business Location(s)'', ''Edgar'',
        ''Related Persons'', ''Phone Number'', ''Total Offering Amount / Amount Raised'']
   \<and> dict_get example_record ''Total Offering Amount / Amount Raised'' = Some ''$1,000 / $500''
   \<and> ''$1,000'' \<notin> set (map snd example_record)
   \<and> ''$500'' \<notin> set (map snd example_record)"
  by code_simp

subsection \<open>C4: related persons\<close>

text \<open>
  Claim C4, as amended. For every detail page with exactly one table identified as the
  \<^verbatim>\<open>Related Persons\<close> section, whose rows are a header row and three data rows, the
  extractor returns the names of the first two data rows only, where each name is the
  row's cell texts in reverse column order joined by single spaces.
\<close>

theorem related_persons_two_rows:
  assumes "find_all (root soup) ''table'' (has_attr ''summary'' ''Related Persons'') = [table]"
    and "find_all table ''tr'' any_node = [header, r1, r2, r3]"
    and "find_all r1 ''td'' any_node \<noteq> []"
    and "find_all r2 ''td'' any_node \<noteq> []"
    and "find_all r3 ''td'' any_node \<noteq> []"
  shows "extract_related_persons soup =
           [join '' '' (map get_text_strip (rev (find_all r1 ''td'' any_node))),
            join '' '' (map get_text_strip (rev (find_all r2 ''td'' any_node)))]"
  using assms by (simp add: extract_related_persons_def row_name_def)

theorem related_persons_two_rows_witness:
  "extract_related_persons related_page =
     [join '' '' (map get_text_strip (rev (find_all (related_row 1) ''td'' any_node))),
      join '' '' (map get_text_strip (rev (find_all (related_row 2) ''td'' any_node)))]
   \<and> extract_related_persons related_page = [''John Doe'', ''Jane Roe'']"
proof -
  have t: "find_all (root related_page) ''table'' (has_attr ''summary'' ''Related Persons'')
             = [([0, 0, 0], related_table)]" by code_simp
  have r: "find_all ([0, 0, 0], related_table) ''tr'' any_node
             = [related_row 0, related_row 1, related_row 2, related_row 3]" by code_simp
  have c: "find_all (related_row 1) ''td'' any_node \<noteq> []"
    "find_all (related_row 2) ''td'' any_node \<noteq> []"
    "find_all (related_row 3) ''td'' any_node \<noteq> []" by code_simp+
  have v: "extract_related_persons related_page = [''John Doe'', ''Jane Roe'']" by code_simp
  from related_persons_two_rows [OF t r c] v show ?thesis by simp
qed

text \<open>The names are not the plain concatenation of the cell texts.\<close>

theorem related_persons_concatenation_counterexample:
  "find_all (root related_page) ''table'' (has_attr ''summary'' ''Related Persons'')
     = [([0, 0, 0], related_table)]
   \<and> find_all ([0, 0, 0], related_table) ''tr'' any_node
     = [related_row 0, related_row 1, related_row 2, related_row 3]
   \<and> [concatenated_name (related_row 1), concatenated_name (related_row 2)]
     = [''JohnDoe'', ''JaneRoe'']
   \<and> extract_related_persons related_page = [''John Doe'', ''Jane Roe'']
   \<and> extract_related_persons related_page
     \<noteq> [concatenated_name (related_row 1), concatenated_name (related_row 2)]"
  by code_simp

subsection \<open>C5: the blank offering amount\<close>

text \<open>
  Claim C5, as amended. For every detail page where both label cells exist and the cell
  that follows the offering-amount label is blank: if the marker (the first \<^verbatim>\<open>span\<close> of
  class \<^verbatim>\<open>FormData\<close> after the label's next sibling cell) has a text that is \<^verbatim>\<open>X\<close>
  once stripped, and a cell follows the sold-amount label, the extractor returns
  \<^verbatim>\<open>Indefinite\<close> as the offering amount; if the marker is absent or its stripped text
  is not \<^verbatim>\<open>X\<close>, the offering-amount variable is left unset and the extractor raises an
  error instead of returning an offering amount.
\<close>

theorem blank_offering_amount:
  assumes "find (root soup) ''td'' (has_string ''Total Offering Amount'') = Some offering_section"
    and "find (root soup) ''td'' (has_string ''Total Amount Sold'') = Some sold_section"
    and "find_next soup offering_section ''td'' any_node = Some adjacent"
    and "get_text_strip adjacent = []"
  shows "(\<forall>sib x c.
            find_next_sibling soup offering_section ''td'' any_node = Some sib \<longrightarrow>
            find_next soup sib ''span'' (has_attr ''class'' ''FormData'') = Some x \<longrightarrow>
            strip (get_text x) = ''X'' \<longrightarrow>
            find_next soup sold_section ''td'' any_node = Some c \<longrightarrow>
            extract_offering_amounts soup = Inr (''Indefinite'', get_text_strip c))
       \<and> (\<forall>sib.
            find_next_sibling soup offering_section ''td'' any_node = Some sib \<longrightarrow>
            (find_next soup sib ''span'' (has_attr ''class'' ''FormData'') = None
             \<or> (\<exists>x. find_next soup sib ''span'' (has_attr ''class'' ''FormData'') = Some x
                    \<and> strip (get_text x) \<noteq> ''X'')) \<longrightarrow>
            extract_offering_amounts soup =
              (if find_next soup sold_section ''td'' any_node = None
               then Inl AttributeError else Inl UnboundLocalError))
       \<and> (find_next_sibling soup offering_section ''td'' any_node = None \<longrightarrow>
            extract_offering_amounts soup = Inl AttributeError)"
  using assms
  by (auto simp: extract_offering_amounts_def read_sold_and_return_def split: option.splits)

theorem blank_offering_amount_witness:
  "extract_offering_amounts (checkbox_page ''X'') = Inr (''Indefinite'', ''$500'')
   \<and> extract_offering_amounts (checkbox_page ''Y'') = Inl UnboundLocalError"
proof -
  let ?o = "([0, 0, 0, 0, 0], cell ''td'' ''Total Offering Amount'')"
  let ?s = "([0, 0, 0, 1, 0], cell ''td'' ''Total Amount Sold'')"
  let ?a = "([0, 0, 0, 0, 1], blank_cell)"
  let ?c = "([0, 0, 0, 1, 1], cell ''td'' ''$500'')"
  have x: "find (root (checkbox_page ''X'')) ''td'' (has_string ''Total Offering Amount'') = Some ?o"
    "find (root (checkbox_page ''X'')) ''td'' (has_string ''Total Amount Sold'') = Some ?s"
    "find_next (checkbox_page ''X'') ?o ''td'' any_node = Some ?a"
    "get_text_strip ?a = []"
    "find_next_sibling (checkbox_page ''X'') ?o ''td'' any_node = Some ?a"
    "find_next (checkbox_page ''X'') ?a ''span'' (has_attr ''class'' ''FormData'')
       = Some ([0, 0, 0, 0, 2, 0], marker ''X'')"
    "strip (get_text ([0, 0, 0, 0, 2, 0], marker ''X'')) = ''X''"
    "find_next (checkbox_page ''X'') ?s ''td'' any_node = Some ?c"
    "get_text_strip ?c = ''$500''"
    by code_simp+
  have y: "find (root (checkbox_page ''Y'')) ''td'' (has_string ''Total Offering Amount'') = Some ?o"
    "find (root (checkbox_page ''Y'')) ''td'' (has_string ''Total Amount Sold'') = Some ?s"
    "find_next (checkbox_page ''Y'') ?o ''td'' any_node = Some ?a"
    "get_text_strip ?a = []"
    "find_next_sibling (checkbox_page ''Y'') ?o ''td'' any_node = Some ?a"
    "find_next (checkbox_page ''Y'') ?a ''span'' (has_attr ''class'' ''FormData'')
       = Some ([0, 0, 0, 0, 2, 0], marker ''Y'')"
    "strip (get_text ([0, 0, 0, 0, 2, 0], marker ''Y'')) \<noteq> ''X''"
    "find_next (checkbox_page ''Y'') ?s ''td'' any_node = Some ?c"
    by code_simp+
  from blank_offering_amount [OF x(1-4)] x(5-9)
  have 1: "extract_offering_amounts (checkbox_page ''X'') = Inr (''Indefinite'', ''$500'')"
    by simp
  from blank_offering_amount [OF y(1-4)] y(5-8)
  have 2: "extract_offering_amounts (checkbox_page ''Y'') = Inl UnboundLocalError"
    by simp
  from 1 2 show ?thesis by simp
qed

text \<open>With the marker \<open>X\<close> in place but no cell after the sold-amount label, no offering
  amount is reported; and a marker whose text is \<open>X\<close> between spaces counts as \<open>X\<close>.\<close>

theorem blank_offering_amount_counterexample:
  "find (root no_sold_cell_page) ''td'' (has_string ''Total Offering Amount'')
     = Some ([0, 0, 0, 0, 0], cell ''td'' ''Total Offering Amount'')
   \<and> find (root no_sold_cell_page) ''td'' (has_string ''Total Amount Sold'')
     = Some ([0, 0, 0, 1, 0], cell ''td'' ''Total Amount Sold'')
   \<and> find_next no_sold_cell_page ([0, 0, 0, 0, 0], cell ''td'' ''Total Offering Amount'') ''td'' any_node
     = Some ([0, 0, 0, 0, 1], blank_cell)
   \<and> get_text_strip ([0, 0, 0, 0, 1], blank_cell) = []
   \<and> find_next_sibling no_sold_cell_page ([0, 0, 0, 0, 0], cell ''td'' ''Total Offering Amount'')
       ''td'' any_node
     = Some ([0, 0, 0, 0, 1], blank_cell)
   \<and> find_next no_sold_cell_page ([0, 0, 0, 0, 1], blank_cell) ''span''
       (has_attr ''class'' ''FormData'')
     = Some ([0, 0, 0, 0, 2, 0], marker ''X'')
   \<and> get_text ([0, 0, 0, 0, 2, 0], marker ''X'') = ''X''
   \<and> extract_offering_amounts no_sold_cell_page = Inl AttributeError
   \<and> extract_offering_amounts (checkbox_page '' X '') = Inr (''Indefinite'', ''$500'')"
  by code_simp

subsection \<open>C6: a failed search request\<close>

text \<open>
  Claim C6, as amended. For every search request that fails with a network error or with
  a status from 400 to 599, the fetch operation makes a single request, catches the error,
  reports \<^verbatim>\<open>Request failed:\<close> with the underlying message, and returns \<^verbatim>\<open>None\<close>, for
  which the page shows its empty-state message instead of aborting.
\<close>

theorem search_failure_reported:
  "(srch start_date end_date = Raised msg \<longrightarrow>
      fetch_sec_filings srch web start_date end_date =
        ([SearchGet start_date end_date, StError (''Request failed: '' @ msg)], Inr None))
   \<and> (srch start_date end_date = Responded r \<and> 400 \<le> status_code r \<and> status_code r < 600 \<longrightarrow>
      fetch_sec_filings srch web start_date end_date =
        ([SearchGet start_date end_date, StError (''Request failed: '' @ http_error_msg r)],
         Inr None))
   \<and> show_filings None = Message ''No filings found or an error occurred.''"
  by (simp add: fetch_sec_filings_def try_fetch_def raise_for_status_def show_filings_def)

theorem search_failure_reported_witness:
  "fetch_sec_filings unreachable_search example_web ''2024-01-01'' ''2024-01-31'' =
     ([SearchGet ''2024-01-01'' ''2024-01-31'', StError ''Request failed: Connection aborted''],
      Inr None)
   \<and> fetch_sec_filings not_found_search example_web ''2024-01-01'' ''2024-01-31'' =
     ([SearchGet ''2024-01-01'' ''2024-01-31'',
       StError ''Request failed: 404 Client Error: Not Found for url''],
      Inr None)"
proof -
  have a: "unreachable_search ''2024-01-01'' ''2024-01-31'' = Raised ''Connection aborted''"
    by (simp add: unreachable_search_def)
  have b: "not_found_search ''2024-01-01'' ''2024-01-31'' =
     Responded \<lparr>status_code = 404, http_error_msg = ''404 Client Error: Not Found for url'',
       body = NotJson ''Expecting value''\<rparr>"
    by (simp add: not_found_search_def)
  from search_failure_reported
         [of unreachable_search "''2024-01-01''" "''2024-01-31''" "''Connection aborted''"
             example_web]
       search_failure_reported
         [of not_found_search "''2024-01-01''" "''2024-01-31''" _ example_web
             "\<lparr>status_code = 404, http_error_msg = ''404 Client Error: Not Found for url'',
               body = NotJson ''Expecting value''\<rparr>"]
       a b
  show ?thesis by simp
qed

text \<open>A response with the status 300 and a JSON body is not treated as a failure: nothing
  is reported and an empty list is returned.\<close>

theorem non_2xx_status_counterexample:
  "multiple_choices_search ''2024-01-01'' ''2024-01-31'' =
     Responded \<lparr>status_code = 300, http_error_msg = [], body = Json (Some (Some []))\<rparr>
   \<and> fetch_sec_filings multiple_choices_search example_web ''2024-01-01'' ''2024-01-31'' =
     ([SearchGet ''2024-01-01'' ''2024-01-31''], Inr (Some []))"
  by code_simp

subsection \<open>C7: hits without a link\<close>

text \<open>
  Claim C7. For every hit lacking a \<^verbatim>\<open>ciks\<close>/\<^verbatim>\<open>adsh\<close> pair (the \<^verbatim>\<open>ciks\<close> key absent, or the
  \<^verbatim>\<open>adsh\<close> value absent or empty), the link field \<^verbatim>\<open>Edgar\<close> of its record is the string
  \<^verbatim>\<open>No links available\<close>. The code breaks this on a hit whose \<^verbatim>\<open>adsh\<close> value is
  \<^verbatim>\<open>null\<close>: line 60 takes the branch that sets the link to \<^verbatim>\<open>No links available\<close>, but
  line 77 then calls \<^verbatim>\<open>replace\<close> on \<^verbatim>\<open>None\<close> and raises \<^verbatim>\<open>AttributeError\<close>, so no record
  is built and \<^verbatim>\<open>clean_up\<close> stops before any detail page is requested.
\<close>

theorem null_adsh_raises:
  "edgar_links (get_source null_adsh_hit) = ''No links available''
   \<and> make_result null_adsh_hit = Inl AttributeError
   \<and> clean_up constant_web (Some (Some [null_adsh_hit])) = ([], Inl AttributeError)
   \<and> clean_up constant_web (Some (Some [Some example_source, null_adsh_hit]))
       = ([], Inl AttributeError)"
  by code_simp

text \<open>
  Where the \<^verbatim>\<open>adsh\<close> value is not \<^verbatim>\<open>null\<close>, the code does what the claim says: when the
  \<^verbatim>\<open>ciks\<close> key is absent, the \<^verbatim>\<open>adsh\<close> key is absent or the \<^verbatim>\<open>adsh\<close> value is the empty
  string, the record is built and its link field is \<^verbatim>\<open>No links available\<close>, before
  enrichment and in the record that enrichment yields.
\<close>

lemma no_links_available:
  assumes "ciks (get_source item) = None \<or> adsh (get_source item) = None
           \<or> adsh (get_source item) = Some (Str [])"
    and "adsh (get_source item) \<noteq> Some Null"
  shows "\<exists>result. make_result item = Inr result
       \<and> dict_get result ''Edgar'' = Some ''No links available''
       \<and> (\<forall>web r. snd (enrich web result) = Inr r \<longrightarrow>
             dict_get (drop_ids r) ''Edgar'' = Some ''No links available'')"
proof -
  from assms(1) have l: "edgar_links (get_source item) = ''No links available''"
    by (auto simp: edgar_links_def split: option.splits json_str.splits)
  from assms(2) have "\<exists>a. adsh_column (get_source item) = Inr a"
    by (auto simp: adsh_column_def split: option.splits json_str.splits)
  then obtain result where m: "make_result item = Inr result"
    by (auto simp: make_result_def Let_def)
  have e: "dict_get result ''Edgar'' = Some (edgar_links (get_source item))"
    using m by (auto simp: make_result_def dict_get_def Let_def split: sum.splits)
  from l m e enriched_edgar [OF m] show ?thesis by simp
qed

lemma no_links_available_example:
  "\<exists>result. make_result lacking_hit = Inr result
   \<and> dict_get result ''Edgar'' = Some ''No links available''
   \<and> (case snd (enrich constant_web result) of
         Inl e \<Rightarrow> None
       | Inr r \<Rightarrow> dict_get (drop_ids r) ''Edgar'') = Some ''No links available''"
proof -
  have a: "ciks (get_source lacking_hit) = None \<or> adsh (get_source lacking_hit) = None
           \<or> adsh (get_source lacking_hit) = Some (Str [])"
    by (simp add: get_source_def lacking_hit_def)
  have n: "adsh (get_source lacking_hit) \<noteq> Some Null"
    by (simp add: get_source_def lacking_hit_def example_source_def)
  have i: "\<not> isl (snd (enrich constant_web (projr (make_result lacking_hit))))"
    by code_simp
  from no_links_available [OF a n] obtain result where
    m: "make_result lacking_hit = Inr result"
    and d: "dict_get result ''Edgar'' = Some ''No links available''"
    and f: "\<forall>web r. snd (enrich web result) = Inr r \<longrightarrow>
             dict_get (drop_ids r) ''Edgar'' = Some ''No links available''"
    by blast
  from i m obtain r where r: "snd (enrich constant_web result) = Inr r"
    by (cases "snd (enrich constant_web result)") simp_all
  from f r have "(case snd (enrich constant_web result) of
         Inl e \<Rightarrow> None
       | Inr r \<Rightarrow> dict_get (drop_ids r) ''Edgar'') = Some ''No links available''"
    by simp
  with m d show ?thesis by blast
qed

subsection \<open>C8: no phone header\<close>

text \<open>
  Claim C8. For every detail page with no \<^verbatim>\<open>th\<close> cell whose string is exactly
  \<^verbatim>\<open>Phone Number of Issuer\<close>, the phone number extracted is \<^verbatim>\<open>Not Found\<close>.
\<close>

theorem phone_not_found:
  assumes "\<forall>t\<in>set (descendants (root soup)).
             \<not> (is_tag ''th'' (snd t) \<and> tag_string (snd t) = Some ''Phone Number of Issuer'')"
  shows "extract_phone_number soup = Inr ''Not Found''"
proof -
  from assms have "find (root soup) ''th'' (has_string ''Phone Number of Issuer'') = None"
    by (simp add: find_None_iff matches_def has_string_def)
  then show ?thesis by (simp add: extract_phone_number_def)
qed

theorem phone_not_found_witness:
  "extract_phone_number related_page = Inr ''Not Found''"
proof -
  have "\<forall>t\<in>set (descendants (root related_page)).
          \<not> (is_tag ''th'' (snd t) \<and> tag_string (snd t) = Some ''Phone Number of Issuer'')"
    by code_simp
  from phone_not_found [OF this] show ?thesis .
qed

subsection \<open>C9: a missing amount label\<close>

text \<open>
  Claim C9. For every detail page where the \<^verbatim>\<open>td\<close> cell with string exactly
  \<^verbatim>\<open>Total Offering Amount\<close> or the one with string exactly \<^verbatim>\<open>Total Amount Sold\<close> is
  missing, both amounts extracted are \<^verbatim>\<open>Not Found\<close>.
\<close>

theorem amounts_not_found:
  assumes "(\<forall>t\<in>set (descendants (root soup)).
              \<not> (is_tag ''td'' (snd t) \<and> tag_string (snd t) = Some ''Total Offering Amount''))
         \<or> (\<forall>t\<in>set (descendants (root soup)).
              \<not> (is_tag ''td'' (snd t) \<and> tag_string (snd t) = Some ''Total Amount Sold''))"
  shows "extract_offering_amounts soup = Inr (''Not Found'', ''Not Found'')"
proof -
  from assms have "find (root soup) ''td'' (has_string ''Total Offering Amount'') = None
    \<or> find (root soup) ''td'' (has_string ''Total Amount Sold'') = None"
    by (simp add: find_None_iff matches_def has_string_def)
  then show ?thesis
    by (auto simp: extract_offering_amounts_def split: option.splits)
qed

text \<open>A page with the offering-amount cell and no sold-amount cell.\<close>

theorem amounts_not_found_witness:
  "find (root offering_only_page) ''td'' (has_string ''Total Offering Amount'')
     = Some ([0, 0, 0, 0, 0], cell ''td'' ''Total Offering Amount'')
   \<and> extract_offering_amounts offering_only_page = Inr (''Not Found'', ''Not Found'')"
proof -
  have "\<forall>t\<in>set (descendants (root offering_only_page)).
          \<not> (is_tag ''td'' (snd t) \<and> tag_string (snd t) = Some ''Total Amount Sold'')"
    by code_simp
  then have "extract_offering_amounts offering_only_page = Inr (''Not Found'', ''Not Found'')"
    by (intro amounts_not_found) simp
  moreover have "find (root offering_only_page) ''td'' (has_string ''Total Offering Amount'')
     = Some ([0, 0, 0, 0, 0], cell ''td'' ''Total Offering Amount'')" by code_simp
  ultimately show ?thesis by simp
qed

subsection \<open>C10: a phone header without data cells\<close>

text \<open>
  Claim C10. There is a detail page on which the \<^verbatim>\<open>Phone Number of Issuer\<close> header is
  found and both its parent and the element the code calls \<^verbatim>\<open>row\<close> (the parent of the
  header's parent) have header cells and no data cell, and there the extractor raises
  \<^verbatim>\<open>IndexError\<close>, from \<^verbatim>\<open>tds[-1]\<close> on an empty list, instead of returning
  \<^verbatim>\<open>Not Found\<close>. Whenever the header is found under a \<^verbatim>\<open>row\<close>, the extractor raises
  that error exactly when the row has no data cell, and returns the text of one of the
  row's data cells otherwise.
\<close>

theorem phone_header_without_cells:
  "(\<exists>soup section par row.
       find (root soup) ''th'' (has_string ''Phone Number of Issuer'') = Some section
     \<and> parent soup section = Some par \<and> parent soup par = Some row
     \<and> find_all par ''th'' any_node \<noteq> [] \<and> find_all par ''td'' any_node = []
     \<and> find_all row ''th'' any_node \<noteq> [] \<and> find_all row ''td'' any_node = []
     \<and> extract_phone_number soup = Inl IndexError)
   \<and> (\<forall>soup section par row.
       find (root soup) ''th'' (has_string ''Phone Number of Issuer'') = Some section \<longrightarrow>
       parent soup section = Some par \<longrightarrow> parent soup par = Some row \<longrightarrow>
         (extract_phone_number soup = Inl IndexError) = (find_all row ''td'' any_node = [])
       \<and> (find_all row ''td'' any_node \<noteq> [] \<longrightarrow>
            (\<exists>t\<in>set (find_all row ''td'' any_node).
               extract_phone_number soup = Inr (get_text_strip t))))"
proof (intro conjI allI impI)
  let ?section = "([0, 0, 0, 0, 0], cell ''th'' ''Phone Number of Issuer'')"
  let ?par = "([0, 0, 0, 0], Element ''tr'' [] [cell ''th'' ''Phone Number of Issuer''])"
  let ?row = "([0, 0, 0], Element ''table'' [] [Element ''tr'' [] [cell ''th'' ''Phone Number of Issuer'']])"
  have "find (root header_only_page) ''th'' (has_string ''Phone Number of Issuer'') = Some ?section"
    "parent header_only_page ?section = Some ?par"
    "parent header_only_page ?par = Some ?row"
    "find_all ?par ''th'' any_node \<noteq> []" "find_all ?par ''td'' any_node = []"
    "find_all ?row ''th'' any_node \<noteq> []" "find_all ?row ''td'' any_node = []"
    "extract_phone_number header_only_page = Inl IndexError"
    by code_simp+
  then show "\<exists>soup section par row.
       find (root soup) ''th'' (has_string ''Phone Number of Issuer'') = Some section
     \<and> parent soup section = Some par \<and> parent soup par = Some row
     \<and> find_all par ''th'' any_node \<noteq> [] \<and> find_all par ''td'' any_node = []
     \<and> find_all row ''th'' any_node \<noteq> [] \<and> find_all row ''td'' any_node = []
     \<and> extract_phone_number soup = Inl IndexError"
    by blast
next
  fix soup sec par row
  assume h: "find (root soup) ''th'' (has_string ''Phone Number of Issuer'') = Some sec"
    "parent soup sec = Some par" "parent soup par = Some row"
  from phone_header_found [OF h]
  show "(extract_phone_number soup = Inl IndexError) = (find_all row ''td'' any_node = [])"
    by auto
next
  fix soup sec par row
  assume h: "find (root soup) ''th'' (has_string ''Phone Number of Issuer'') = Some sec"
    "parent soup sec = Some par" "parent soup par = Some row"
    and n: "find_all row ''td'' any_node \<noteq> []"
  from phone_header_found [OF h] n
  show "\<exists>t\<in>set (find_all row ''td'' any_node).
          extract_phone_number soup = Inr (get_text_strip t)"
    by blast
qed

theorem phone_header_without_cells_witness:
  "extract_phone_number header_only_page = Inl IndexError
   \<and> extract_phone_number full_page = Inr ''555-1234''"
proof -
  let ?section = "([0, 0, 0, 0, 0], cell ''th'' ''Phone Number of Issuer'')"
  let ?par = "([0, 0, 0, 0], Element ''tr'' [] [cell ''th'' ''Phone Number of Issuer''])"
  let ?row = "([0, 0, 0], Element ''table'' [] [Element ''tr'' [] [cell ''th'' ''Phone Number of Issuer'']])"
  have h: "find (root header_only_page) ''th'' (has_string ''Phone Number of Issuer'') = Some ?section"
    "parent header_only_page ?section = Some ?par"
    "parent header_only_page ?par = Some ?row"
    and e: "find_all ?row ''td'' any_node = []"
    by code_simp+
  from phone_header_without_cells h e
  have "extract_phone_number header_only_page = Inl IndexError" by blast
  moreover have "extract_phone_number full_page = Inr ''555-1234''" by code_simp
  ultimately show ?thesis by simp
qed

end
